theory Spec2Isabelle
  imports Main
begin

section \<open>The command line client of google/refine/__main__.py\<close>

text \<open>
  The script parses its arguments with argparse and then runs \<open>main\<close>, which sets the server
  address, resolves the project the user named, and calls one verb of the module \<open>cli\<close>.
  The model starts from the namespace that \<open>parser.parse_args()\<close> returns. What \<open>main\<close>
  does to the outside (calls into \<open>cli\<close>, the request that lists the projects, printing) is
  recorded as a list of events in the order in which it happens.
\<close>

subsection \<open>Python values\<close>

text \<open>The values a keyword dictionary can hold: None, booleans, ints, strings, lists.\<close>

datatype pyval = PNone | PBool bool | PInt int | PStr string | PList "pyval list"

definition of_str :: "string option \<Rightarrow> pyval" where
  "of_str v = (case v of None \<Rightarrow> PNone | Some s \<Rightarrow> PStr s)"

definition of_int_opt :: "int option \<Rightarrow> pyval" where
  "of_int_opt v = (case v of None \<Rightarrow> PNone | Some i \<Rightarrow> PInt i)"

definition of_ints :: "int list option \<Rightarrow> pyval" where
  "of_ints v = (case v of None \<Rightarrow> PNone | Some xs \<Rightarrow> PList (map PInt xs))"

definition of_strs :: "string list option \<Rightarrow> pyval" where
  "of_strs v = (case v of None \<Rightarrow> PNone | Some xs \<Rightarrow> PList (map PStr xs))"

text \<open>
  Truth value of an optional string in an \<open>if\<close>: None and the empty string are false.
\<close>

definition truthy :: "string option \<Rightarrow> bool" where
  "truthy v = (case v of None \<Rightarrow> False | Some s \<Rightarrow> s \<noteq> [])"

text \<open>
  \<open>str.isdigit\<close> is true of a non-empty string all of whose characters are digits. Among the
  characters of ASCII these are \<open>0\<close> to \<open>9\<close>. Which characters beyond ASCII are digits
  (superscripts, fullwidth or Arabic-Indic digits, ...) is written in the Unicode tables of the
  interpreter, not in this program: \<open>unicode_isdigit\<close> stands for \<open>str.isdigit\<close> on the
  strings that hold such a character, and the model takes it as a parameter. A character
  beyond ASCII is one or more \<open>char\<close>s from 128 on.
\<close>

definition is_ascii :: "char \<Rightarrow> bool" where
  "is_ascii c = (of_char c < (128::nat))"

definition str_isdigit :: "(string \<Rightarrow> bool) \<Rightarrow> string \<Rightarrow> bool" where
  "str_isdigit unicode_isdigit s =
    (if list_all is_ascii s then s \<noteq> [] \<and> list_all (\<lambda>c. c \<in> set ''0123456789'') s
     else unicode_isdigit s)"

text \<open>\<open>str\<close> of a non-negative int, as \<open>format\<close> prints \<open>len(idlist)\<close>.\<close>

fun str_nat :: "nat \<Rightarrow> string" where
  "str_nat n = (if n < 10 then [''0123456789'' ! n]
                else str_nat (n div 10) @ [''0123456789'' ! (n mod 10)])"

declare str_nat.simps [simp del]

subsection \<open>Dictionaries with insertion order\<close>

fun dict_set :: "'k \<Rightarrow> 'v \<Rightarrow> ('k \<times> 'v) list \<Rightarrow> ('k \<times> 'v) list" where
  "dict_set k v [] = [(k, v)]"
| "dict_set k v ((k', v') # d) =
     (if k' = k then (k, v) # d else (k', v') # dict_set k v d)"

text \<open>\<open>d.update(other)\<close>: the items of \<open>other\<close> are stored into \<open>d\<close> one after the other.\<close>

fun dict_update :: "('k \<times> 'v) list \<Rightarrow> ('k \<times> 'v) list \<Rightarrow> ('k \<times> 'v) list" where
  "dict_update d [] = d"
| "dict_update d ((k, v) # other) = dict_update (dict_set k v d) other"

subsection \<open>The parsed command line\<close>

text \<open>
  One field for each \<open>add_argument\<close> of the parser, under its \<open>dest\<close>. A \<open>store_true\<close> flag is
  a bool; an option that takes a value is None when it was not given; \<open>type=int\<close> gives an
  int and \<open>action='append'\<close> a list.
\<close>

record options =
  host :: "string option"
  port :: "string option"
  create :: "string option"
  list :: bool
  download :: "string option"
  project_id :: "string option"
  delete :: bool
  "apply" :: "string option"
  export :: bool
  "output" :: "string option"
  template :: "string option"
  info :: bool
  file_format :: "string option"
  columnWidths :: "int list option"
  encoding :: "string option"
  guessCellValueTypes :: "string option"
  headerLines :: "int option"
  ignoreLines :: "int option"
  includeFileSources :: "string option"
  limit :: "int option"
  linesPerRow :: "int option"
  processQuotes :: "string option"
  projectName :: "string option"
  projectTags :: "string list option"
  recordPath :: "string list option"
  separator :: "string option"
  sheets :: "int list option"
  skipDataLines :: "int option"
  storeBlankCellsAsNulls :: "string option"
  storeBlankRows :: "string option"
  storeEmptyStrings :: "string option"
  trimStrings :: "string option"
  mode :: "string option"
  prefix :: "string option"
  rowSeparator :: "string option"
  suffix :: "string option"
  filterQuery :: "string option"
  filterColumn :: "string option"
  facets :: "string option"
  splitToFiles :: "string option"
  suffixById :: "string option"

text \<open>The namespace of an invocation without any argument.\<close>

definition no_options :: options where
  "no_options = \<lparr> host = None, port = None, create = None, list = False, download = None,
     project_id = None, delete = False, apply = None, export = False, output = None,
     template = None, info = False, file_format = None, columnWidths = None,
     encoding = None, guessCellValueTypes = None, headerLines = None, ignoreLines = None,
     includeFileSources = None, limit = None, linesPerRow = None, processQuotes = None,
     projectName = None, projectTags = None, recordPath = None, separator = None,
     sheets = None, skipDataLines = None, storeBlankCellsAsNulls = None,
     storeBlankRows = None, storeEmptyStrings = None, trimStrings = None, mode = None,
     prefix = None, rowSeparator = None, suffix = None, filterQuery = None,
     filterColumn = None, facets = None, splitToFiles = None, suffixById = None \<rparr>"

text \<open>
  \<open>{arg.dest: getattr(options, arg.dest) for arg in CreateGroup._group_actions}\<close>, in the
  order in which the arguments were added to the group.
\<close>

definition CreateGroup_arg_dict :: "options \<Rightarrow> (string \<times> pyval) list" where
  "CreateGroup_arg_dict options =
    [(''columnWidths'', of_ints (columnWidths options)),
     (''encoding'', of_str (encoding options)),
     (''guessCellValueTypes'', of_str (guessCellValueTypes options)),
     (''headerLines'', of_int_opt (headerLines options)),
     (''ignoreLines'', of_int_opt (ignoreLines options)),
     (''includeFileSources'', of_str (includeFileSources options)),
     (''limit'', of_int_opt (limit options)),
     (''linesPerRow'', of_int_opt (linesPerRow options)),
     (''processQuotes'', of_str (processQuotes options)),
     (''projectName'', of_str (projectName options)),
     (''projectTags'', of_strs (projectTags options)),
     (''recordPath'', of_strs (recordPath options)),
     (''separator'', of_str (separator options)),
     (''sheets'', of_ints (sheets options)),
     (''skipDataLines'', of_int_opt (skipDataLines options)),
     (''storeBlankCellsAsNulls'', of_str (storeBlankCellsAsNulls options)),
     (''storeBlankRows'', of_str (storeBlankRows options)),
     (''storeEmptyStrings'', of_str (storeEmptyStrings options)),
     (''trimStrings'', of_str (trimStrings options))]"

definition TemplateGroup_arg_dict :: "options \<Rightarrow> (string \<times> pyval) list" where
  "TemplateGroup_arg_dict options =
    [(''mode'', of_str (mode options)),
     (''prefix'', of_str (prefix options)),
     (''rowSeparator'', of_str (rowSeparator options)),
     (''suffix'', of_str (suffix options)),
     (''filterQuery'', of_str (filterQuery options)),
     (''filterColumn'', of_str (filterColumn options)),
     (''facets'', of_str (facets options)),
     (''splitToFiles'', of_str (splitToFiles options)),
     (''suffixById'', of_str (suffixById options))]"

text \<open>
  The keyword arguments built from an \<open>arg_dict\<close> (the same five statements stand in the
  branch of \<open>--create\<close> and in the branch of \<open>--template\<close>): the values that are neither None
  nor 'true' nor 'false', then True for each 'true', then False for each 'false', then
  \<open>project_format\<close> if \<open>options.file_format\<close> is true.
\<close>

definition build_kwargs :: "(string \<times> pyval) list \<Rightarrow> string option \<Rightarrow> (string \<times> pyval) list" where
  "build_kwargs arg_dict fmt =
    (let kwargs = filter (\<lambda>(k, v). v \<noteq> PNone \<and> v \<notin> set [PStr ''true'', PStr ''false'']) arg_dict;
         kwargs = dict_update kwargs
                    (map (\<lambda>(k, v). (k, PBool True)) (filter (\<lambda>(k, v). v = PStr ''true'') arg_dict));
         kwargs = dict_update kwargs
                    (map (\<lambda>(k, v). (k, PBool False)) (filter (\<lambda>(k, v). v = PStr ''false'') arg_dict))
     in case fmt of
          None \<Rightarrow> kwargs
        | Some f \<Rightarrow> if f \<noteq> [] then dict_update kwargs [(''project_format'', PStr f)] else kwargs)"

subsection \<open>The outside world\<close>

text \<open>
  The metadata of a project as \<open>list_projects\<close> returns it; \<open>main\<close> reads the name only.
\<close>

record project_info =
  name :: string

text \<open>
  Everything \<open>main\<close> does to the outside. The verbs of \<open>cli\<close> and the client library are not
  part of this file; a call is recorded with its arguments and taken to return.
\<close>

datatype event =
    refine_list_projects
  | print string
  | parser_print_help
  | cli_ls
  | cli_download string "string option"
  | cli_create string "(string \<times> pyval) list"
  | cli_info string
  | cli_delete string
  | cli_apply string string
  | cli_export string "string option" "string option"

record world =
  REFINE_HOST :: string
  REFINE_PORT :: string
  events :: "event list"

definition call :: "event \<Rightarrow> world \<Rightarrow> world" where
  "call e w = w\<lparr>events := events w @ [e]\<rparr>"

datatype error = UnboundLocalError

text \<open>How a part of \<open>main\<close> ends: with \<open>return\<close>, or by going on to the next statement.\<close>

datatype 'a flow = Return | Continue 'a

subsection \<open>main\<close>

definition set_environment :: "options \<Rightarrow> world \<Rightarrow> world" where
  "set_environment options w =
    (let w = (case host options of
                Some h \<Rightarrow> if h \<noteq> [] then w\<lparr>REFINE_HOST := h\<rparr> else w
              | None \<Rightarrow> w)
     in case port options of
          Some p \<Rightarrow> if p \<noteq> [] then w\<lparr>REFINE_PORT := p\<rparr> else w
        | None \<Rightarrow> w)"

text \<open>
  The loop over the projects of the server. Its target \<open>project_id\<close> is the local variable
  of \<open>main\<close>, so the loop carries it along with \<open>idlist\<close>. The ids are the keys of a JSON
  object, strings already, and \<open>str\<close> leaves them as they are.
\<close>

fun for_projects ::
  "string \<Rightarrow> (string \<times> project_info) list \<Rightarrow> string option \<times> string list
    \<Rightarrow> string option \<times> string list" where
  "for_projects n [] (project_id', idlist) = (project_id', idlist)"
| "for_projects n ((pid, project_info) # projects) (project_id', idlist) =
     for_projects n projects
       (Some pid, if n = name project_info then idlist @ [pid] else idlist)"

fun for_idlist :: "string list \<Rightarrow> world \<Rightarrow> world" where
  "for_idlist [] w = w"
| "for_idlist (i # idlist) w = for_idlist idlist (call (cli_info i) (call (print []) w))"

definition found_message :: "nat \<Rightarrow> string \<Rightarrow> string" where
  "found_message k n = ''Error: Found '' @ str_nat k @ '' projects with name '' @ n @ ''.''
     @ [CHR 0x0A] @ ''Please specify project by id.''"

definition not_found_message :: "string \<Rightarrow> string" where
  "not_found_message n = ''Error: No project found with name '' @ n @ ''.''
     @ [CHR 0x0A] @ ''Try command --list''"

text \<open>
  Lines 199 to 221. The result is the local variable \<open>project_id\<close> of \<open>main\<close>: None while
  nothing has been assigned to it. \<open>projects\<close> is the answer of the server to
  \<open>list_projects\<close>, as \<open>items()\<close> lists it.
\<close>

definition get_project_id ::
  "(string \<Rightarrow> bool) \<Rightarrow> (string \<times> project_info) list \<Rightarrow> options \<Rightarrow> world
    \<Rightarrow> string option flow \<times> world" where
  "get_project_id unicode_isdigit projects options w =
    (case project_id options of
       None \<Rightarrow> (Continue None, w)
     | Some n \<Rightarrow>
         if n \<noteq> [] \<and> str_isdigit unicode_isdigit n then (Continue (Some n), w)
         else if n \<noteq> [] then
           (let w = call refine_list_projects w;
                (project_id', idlist) = for_projects n projects (None, [])
            in if length idlist > 1 then
                 (Return, for_idlist idlist (call (print (found_message (length idlist) n)) w))
               else
                 (case idlist of
                    i # _ \<Rightarrow> (Continue (Some i), w)
                  | [] \<Rightarrow> (Return, call (print (not_found_message n)) w)))
         else (Continue None, w))"

text \<open>
  Lines 223 to 262, the chain of \<open>if\<close> and \<open>elif\<close>; \<open>project_id'\<close> is the local variable
  \<open>project_id\<close> as the lines before left it. Reading it before anything was assigned to it
  raises \<open>UnboundLocalError\<close>. Where a string option is true it is \<open>Some\<close> string, which
  \<open>the\<close> reads. The branch of \<open>--template\<close> builds its keyword arguments and ends there.
\<close>

definition commands :: "options \<Rightarrow> string option \<Rightarrow> world \<Rightarrow> (error + unit) \<times> world" where
  "commands options project_id' w =
    (if list options then (Inr (), call cli_ls w)
     else if truthy (download options) then
       (Inr (), call (cli_download (the (download options)) (output options)) w)
     else if truthy (create options) then
       (let kwargs = build_kwargs (CreateGroup_arg_dict options) (file_format options)
        in (Inr (), call (cli_create (the (create options)) kwargs) w))
     else if info options then
       (case project_id' of
          None \<Rightarrow> (Inl UnboundLocalError, w)
        | Some p \<Rightarrow> (Inr (), call (cli_info p) w))
     else if delete options then
       (case project_id' of
          None \<Rightarrow> (Inl UnboundLocalError, w)
        | Some p \<Rightarrow> (Inr (), call (cli_delete p) w))
     else if truthy (apply options) then
       (case project_id' of
          None \<Rightarrow> (Inl UnboundLocalError, w)
        | Some p \<Rightarrow> (Inr (), call (cli_apply p (the (apply options))) w))
     else if truthy (template options) then
       (let kwargs = build_kwargs (TemplateGroup_arg_dict options) (file_format options)
        in (Inr (), w))
     else if export options \<or> truthy (output options) then
       (case project_id' of
          None \<Rightarrow> (Inl UnboundLocalError, w)
        | Some p \<Rightarrow> (Inr (), call (cli_export p (output options) (file_format options)) w))
     else (Inr (), call parser_print_help w))"

definition main ::
  "(string \<Rightarrow> bool) \<Rightarrow> (string \<times> project_info) list \<Rightarrow> options \<Rightarrow> world
    \<Rightarrow> (error + unit) \<times> world" where
  "main unicode_isdigit projects options w =
    (case get_project_id unicode_isdigit projects options (set_environment options w) of
       (Return, w') \<Rightarrow> (Inr (), w')
     | (Continue project_id', w') \<Rightarrow> commands options project_id' w')"

text \<open>A world to start from: the address that the help text gives as default, no event.\<close>

definition world0 :: world where
  "world0 = \<lparr> REFINE_HOST = ''127.0.0.1'', REFINE_PORT = ''3333'', events = [] \<rparr>"

text \<open>
  A table for the statements about one command line. They are all about command lines in
  ASCII, on which \<open>str_isdigit\<close> does not read the table; this one knows no digit beyond
  ASCII.
\<close>

definition no_other_digits :: "string \<Rightarrow> bool" where
  "no_other_digits s = False"

subsection \<open>Notions of the statements\<close>

text \<open>The ids of the projects of the server that carry the name \<open>n\<close>, in the server's order.\<close>

definition ids_named :: "string \<Rightarrow> (string \<times> project_info) list \<Rightarrow> string list" where
  "ids_named n projects = map fst (filter (\<lambda>(i, p). name p = n) projects)"

text \<open>
  What the specification says of a string given on the command line: 'true' and 'false'
  become the booleans, every other string is passed as it is.
\<close>

definition flag_value :: "string \<Rightarrow> pyval" where
  "flag_value s =
    (if s = ''true'' then PBool True else if s = ''false'' then PBool False else PStr s)"

section \<open>Facts about the parts of main\<close>

lemma str_isdigit_ascii:
  "list_all is_ascii s \<Longrightarrow>
   str_isdigit unicode_isdigit s = (s \<noteq> [] \<and> list_all (\<lambda>c. c \<in> set ''0123456789'') s)"
  by (simp add: str_isdigit_def)

lemma str_isdigit_beyond_ascii:
  "\<not> list_all is_ascii s \<Longrightarrow> str_isdigit unicode_isdigit s = unicode_isdigit s"
  by (simp add: str_isdigit_def)

text \<open>
  Superscript two, in UTF-8, as \<open>--project_id\<close> next to \<open>--delete\<close>: where the interpreter
  has it as a digit, line 201 takes it as the id and the project of that id is deleted,
  without a look at the names on the server.
\<close>

lemma main_superscript_two:
  assumes "unicode_isdigit [CHR 0xC2, CHR 0xB2]"
  shows "events (snd (main unicode_isdigit projects
      (no_options\<lparr>project_id := Some [CHR 0xC2, CHR 0xB2], delete := True\<rparr>) world0))
    = [cli_delete [CHR 0xC2, CHR 0xB2]]"
  using assms
  by (simp add: main_def get_project_id_def set_environment_def commands_def truthy_def
      str_isdigit_def is_ascii_def no_options_def call_def world0_def)

lemma not_given: "v = None \<or> v = Some [] \<Longrightarrow> \<not> truthy v"
  by (auto simp: truthy_def)

lemma given: "truthy (Some s) = (s \<noteq> [])"
  by (simp add: truthy_def)

lemma events_set_environment: "events (set_environment options w) = events w"
  by (simp add: set_environment_def split: option.splits)

lemma events_call: "events (call e w) = events w @ [e]"
  by (simp add: call_def)

lemma for_projects_idlist:
  "snd (for_projects n projects (l, idlist)) = idlist @ ids_named n projects"
  by (induction projects arbitrary: l idlist) (auto simp: ids_named_def)


lemma get_project_id_absent:
  "project_id options = None \<or> project_id options = Some [] \<Longrightarrow>
   get_project_id unicode_isdigit projects options w = (Continue None, w)"
  by (auto simp: get_project_id_def)

lemma get_project_id_digits:
  "project_id options = Some n \<Longrightarrow> n \<noteq> [] \<Longrightarrow> str_isdigit unicode_isdigit n \<Longrightarrow>
   get_project_id unicode_isdigit projects options w = (Continue (Some n), w)"
  by (simp add: get_project_id_def)

lemma get_project_id_unique:
  assumes "project_id options = Some n" and "n \<noteq> []" and "\<not> str_isdigit unicode_isdigit n"
    and "ids_named n projects = [p]"
  shows "get_project_id unicode_isdigit projects options w
    = (Continue (Some p), call refine_list_projects w)"
proof -
  obtain l idl where r: "for_projects n projects (None, []) = (l, idl)"
    by (cases "for_projects n projects (None, [])")
  have "idl = [p]"
    using for_projects_idlist [of n projects None "[]"] r assms(4) by simp
  with assms r show ?thesis
    by (simp add: get_project_id_def Let_def)
qed


text \<open>
  When \<open>--project_id\<close> is absent, empty, a number, or the name of exactly one project, the
  lines about it go on to the commands; the server is asked only if a name had to be looked
  up.
\<close>

lemma get_project_id_continues:
  assumes "case project_id options of
             None \<Rightarrow> True
           | Some n \<Rightarrow> n = [] \<or> str_isdigit unicode_isdigit n \<or> (\<exists>p. ids_named n projects = [p])"
  shows "\<exists>l w'. get_project_id unicode_isdigit projects options w = (Continue l, w')
     \<and> events w' = events w @
         (case project_id options of
            None \<Rightarrow> []
          | Some n \<Rightarrow> if n = [] \<or> str_isdigit unicode_isdigit n then [] else [refine_list_projects])"
proof (cases "project_id options")
  case None
  then show ?thesis by (simp add: get_project_id_absent)
next
  case (Some n)
  show ?thesis
  proof (cases "n = []")
    case True
    with Some show ?thesis by (simp add: get_project_id_absent)
  next
    case False
    show ?thesis
    proof (cases "str_isdigit unicode_isdigit n")
      case True
      with Some False show ?thesis by (simp add: get_project_id_digits)
    next
      case nd: False
      with assms Some False obtain p where "ids_named n projects = [p]" by auto
      from get_project_id_unique [OF Some False nd this] Some False nd show ?thesis
        by (simp add: events_call)
    qed
  qed
qed

section \<open>A command that needs a project, without --project_id\<close>

text \<open>
  C9. When the branch of \<open>--info\<close>, \<open>--delete\<close>, \<open>--apply\<close> or \<open>--export\<close>/\<open>--output\<close> is the one
  that runs and \<open>--project_id\<close> was not given (or is empty), \<open>main\<close> reads its local
  variable \<open>project_id\<close> before anything was assigned to it: the run ends with
  \<open>UnboundLocalError\<close>, and nothing was printed, requested or called.
\<close>

theorem main_unbound_project_id:
  assumes "\<not> truthy (project_id options)"
    and "\<not> list options" and "\<not> truthy (download options)" and "\<not> truthy (create options)"
    and "info options \<or> delete options \<or> truthy (apply options)
         \<or> (\<not> truthy (template options) \<and> (export options \<or> truthy (output options)))"
  shows "main unicode_isdigit projects options w
    = (Inl UnboundLocalError, set_environment options w)"
proof -
  have "get_project_id unicode_isdigit projects options (set_environment options w)
          = (Continue None, set_environment options w)"
    using assms(1) by (auto simp: get_project_id_def truthy_def split: option.splits)
  moreover have "commands options None (set_environment options w)
          = (Inl UnboundLocalError, set_environment options w)"
    using assms(2-5) by (auto simp: commands_def)
  ultimately show ?thesis by (simp add: main_def)
qed

theorem main_unbound_project_id_witness:
  "fst (main no_other_digits [] (no_options\<lparr>delete := True\<rparr>) world0) = Inl UnboundLocalError
   \<and> events (snd (main no_other_digits [] (no_options\<lparr>delete := True\<rparr>) world0)) = []"
  using main_unbound_project_id [of "no_options\<lparr>delete := True\<rparr>" no_other_digits "[]" world0]
  by (simp add: no_options_def truthy_def events_set_environment world0_def)

section \<open>A project name that several projects have\<close>



section \<open>The keyword arguments of --create\<close>

lemma map_of_dict_set: "map_of (dict_set k v d) = (map_of d)(k \<mapsto> v)"
  by (induction d) auto

lemma keys_dict_set: "fst ` set (dict_set k v d) = insert k (fst ` set d)"
  by (simp add: dom_map_of_conv_image_fst [symmetric] map_of_dict_set)

lemma distinct_dict_set: "distinct (map fst d) \<Longrightarrow> distinct (map fst (dict_set k v d))"
  by (induction d) (auto simp: keys_dict_set)

lemma distinct_dict_update:
  "distinct (map fst d) \<Longrightarrow> distinct (map fst (dict_update d other))"
  by (induction other arbitrary: d) (auto simp: distinct_dict_set)

lemma dict_update_other_key:
  "k \<notin> fst ` set other \<Longrightarrow> map_of (dict_update d other) k = map_of d k"
  by (induction other arbitrary: d) (auto simp: map_of_dict_set)

lemma dict_update_this_key:
  "distinct (map fst other) \<Longrightarrow> (k, v) \<in> set other \<Longrightarrow> map_of (dict_update d other) k = Some v"
proof (induction other arbitrary: d)
  case Nil
  then show ?case by simp
next
  case (Cons p other)
  obtain k' v' where p: "p = (k', v')" by (cases p)
  show ?case
  proof (cases "(k, v) \<in> set other")
    case True
    with Cons p show ?thesis by simp
  next
    case False
    with Cons.prems p have "k' = k" "v' = v" "k \<notin> fst ` set other"
      by auto
    then show ?thesis
      using p by (simp add: dict_update_other_key map_of_dict_set)
  qed
qed

lemma map_of_filter_distinct:
  "distinct (map fst d) \<Longrightarrow> (k, v) \<in> set d \<Longrightarrow>
   map_of (filter P d) k = (if P (k, v) then Some v else None)"
  by (induction d) (auto simp: map_of_eq_None_iff image_iff)

lemma distinct_map_filter_keys:
  "distinct (map fst d) \<Longrightarrow> distinct (map fst (map (\<lambda>(k, v). (k, c)) (filter P d)))"
  by (induction d) (auto simp: image_iff)

lemma distinct_filter_keys:
  "distinct (map fst d) \<Longrightarrow> distinct (map fst (filter P d))"
  by (induction d) (auto simp: image_iff)

lemma keys_map_filter:
  "fst ` set (map (\<lambda>(k, v). (k, c)) (filter P d)) = fst ` {x \<in> set d. P x}"
  by (induction d) (auto simp: image_iff)

lemma dom_dict_update:
  "dom (map_of (dict_update d other)) = dom (map_of d) \<union> fst ` set other"
proof (induction other arbitrary: d)
  case Nil
  then show ?case by simp
next
  case (Cons p other)
  obtain a b where p: "p = (a, b)" by (cases p)
  have "dom (map_of (dict_update d (p # other))) = dom (map_of (dict_set a b d)) \<union> fst ` set other"
    using Cons.IH [of "dict_set a b d"] p by simp
  also have "\<dots> = dom (map_of d) \<union> fst ` set (p # other)"
    using p by (simp add: map_of_dict_set)
  finally show ?case .
qed

lemma three_updates_lookup:
  assumes d: "distinct (map fst arg_dict)" and m: "(k, v) \<in> set arg_dict"
  shows "map_of (dict_update
       (dict_update
          (filter (\<lambda>(k, v). v \<noteq> PNone \<and> v \<notin> set [PStr ''true'', PStr ''false'']) arg_dict)
          (map (\<lambda>(k, v). (k, PBool True)) (filter (\<lambda>(k, v). v = PStr ''true'') arg_dict)))
       (map (\<lambda>(k, v). (k, PBool False)) (filter (\<lambda>(k, v). v = PStr ''false'') arg_dict))) k
     = (if v = PNone then None
        else if v = PStr ''true'' then Some (PBool True)
        else if v = PStr ''false'' then Some (PBool False)
        else Some v)"
proof -
  let ?T = "map (\<lambda>(k, v). (k, PBool True)) (filter (\<lambda>(k, v). v = PStr ''true'') arg_dict)"
  let ?F = "map (\<lambda>(k, v). (k, PBool False)) (filter (\<lambda>(k, v). v = PStr ''false'') arg_dict)"
  have uniq: "v' = v" if "(k, v') \<in> set arg_dict" for v'
    using d m that map_of_is_SomeI by fastforce
  have dT: "distinct (map fst ?T)" and dF: "distinct (map fst ?F)"
    using d by (rule distinct_map_filter_keys)+
  consider (f) "v = PStr ''false''" | (t) "v = PStr ''true''"
    | (r) "v \<noteq> PStr ''false''" "v \<noteq> PStr ''true''"
    by blast
  then show ?thesis
  proof cases
    case f
    with m have "(k, PBool False) \<in> set ?F" by force
    from dict_update_this_key [OF dF this] f show ?thesis
      by simp
  next
    case t
    have "k \<notin> fst ` set ?F"
      using t by (auto simp: keys_map_filter dest: uniq)
    moreover from m t have "(k, PBool True) \<in> set ?T" by force
    ultimately show ?thesis
      using dict_update_this_key [OF dT, of k "PBool True"] t
      by (simp add: dict_update_other_key)
  next
    case r
    have "k \<notin> fst ` set ?F" "k \<notin> fst ` set ?T"
      using r by (auto simp: keys_map_filter dest: uniq)
    then show ?thesis
      using map_of_filter_distinct [OF d m, of "\<lambda>(k, v). v \<noteq> PNone \<and> v \<notin> set [PStr ''true'', PStr ''false'']"] r
      by (simp add: dict_update_other_key)
  qed
qed

lemma build_kwargs_arg:
  assumes "distinct (map fst arg_dict)" and "(k, v) \<in> set arg_dict"
    and "k \<noteq> ''project_format''"
  shows "map_of (build_kwargs arg_dict fmt) k
     = (if v = PNone then None
        else if v = PStr ''true'' then Some (PBool True)
        else if v = PStr ''false'' then Some (PBool False)
        else Some v)"
  using three_updates_lookup [OF assms(1,2)] assms(3)
  by (simp add: build_kwargs_def Let_def map_of_dict_set split: option.splits)

lemma build_kwargs_format:
  assumes "''project_format'' \<notin> fst ` set arg_dict"
  shows "map_of (build_kwargs arg_dict fmt) ''project_format'' =
    (case fmt of None \<Rightarrow> None | Some f \<Rightarrow> if f = [] then None else Some (PStr f))"
proof -
  have "''project_format'' \<notin> dom (map_of (dict_update
       (dict_update
          (filter (\<lambda>(k, v). v \<noteq> PNone \<and> v \<notin> set [PStr ''true'', PStr ''false'']) arg_dict)
          (map (\<lambda>(k, v). (k, PBool True)) (filter (\<lambda>(k, v). v = PStr ''true'') arg_dict)))
       (map (\<lambda>(k, v). (k, PBool False)) (filter (\<lambda>(k, v). v = PStr ''false'') arg_dict))))"
    unfolding dom_dict_update keys_map_filter
    using assms by (auto simp: dom_map_of_conv_image_fst)
  then show ?thesis
    by (auto simp: build_kwargs_def Let_def map_of_dict_set split: option.splits)
qed

lemma dom_with_format:
  assumes "dom (map_of c) \<subseteq> A"
  shows "dom (map_of (case fmt of None \<Rightarrow> c
            | Some f \<Rightarrow> if f \<noteq> [] then dict_update c [(''project_format'', PStr f)] else c))
         \<subseteq> insert ''project_format'' A"
  using assms by (auto simp: map_of_dict_set split: option.splits if_splits)

lemma build_kwargs_dom:
  "dom (map_of (build_kwargs arg_dict fmt)) \<subseteq> insert ''project_format'' (fst ` set arg_dict)"
  unfolding build_kwargs_def Let_def
proof (rule dom_with_format)
  show "dom (map_of (dict_update
       (dict_update
          (filter (\<lambda>(k, v). v \<noteq> PNone \<and> v \<notin> set [PStr ''true'', PStr ''false'']) arg_dict)
          (map (\<lambda>(k, v). (k, PBool True)) (filter (\<lambda>(k, v). v = PStr ''true'') arg_dict)))
       (map (\<lambda>(k, v). (k, PBool False)) (filter (\<lambda>(k, v). v = PStr ''false'') arg_dict))))
      \<subseteq> fst ` set arg_dict"
    unfolding dom_dict_update keys_map_filter
    by (auto simp: dom_map_of_conv_image_fst)
qed

lemma build_kwargs_distinct:
  "distinct (map fst arg_dict) \<Longrightarrow> distinct (map fst (build_kwargs arg_dict fmt))"
  by (simp add: build_kwargs_def Let_def distinct_dict_update distinct_filter_keys
      distinct_dict_set split: option.splits)

lemma distinct_CreateGroup: "distinct (map fst (CreateGroup_arg_dict options))"
  by (simp add: CreateGroup_arg_dict_def)

lemma project_format_not_CreateGroup:
  "''project_format'' \<notin> fst ` set (CreateGroup_arg_dict options)"
  by (simp add: CreateGroup_arg_dict_def)

lemma create_kwarg:
  assumes "(k, v) \<in> set (CreateGroup_arg_dict options)"
  shows "map_of (build_kwargs (CreateGroup_arg_dict options) fmt) k
     = (if v = PNone then None
        else if v = PStr ''true'' then Some (PBool True)
        else if v = PStr ''false'' then Some (PBool False)
        else Some v)"
proof -
  from assms project_format_not_CreateGroup [of options] have "k \<noteq> ''project_format''"
    by force
  with assms show ?thesis
    by (rule build_kwargs_arg [OF distinct_CreateGroup])
qed

lemma create_kwarg_str:
  assumes "(k, of_str x) \<in> set (CreateGroup_arg_dict options)"
  shows "map_of (build_kwargs (CreateGroup_arg_dict options) fmt) k = map_option flag_value x"
  using create_kwarg [OF assms, of fmt] by (cases x) (simp_all add: of_str_def flag_value_def)

lemma create_kwarg_int:
  assumes "(k, of_int_opt x) \<in> set (CreateGroup_arg_dict options)"
  shows "map_of (build_kwargs (CreateGroup_arg_dict options) fmt) k = map_option PInt x"
  using create_kwarg [OF assms, of fmt] by (cases x) (simp_all add: of_int_opt_def)

lemma create_kwarg_ints:
  assumes "(k, of_ints x) \<in> set (CreateGroup_arg_dict options)"
  shows "map_of (build_kwargs (CreateGroup_arg_dict options) fmt) k
     = map_option (\<lambda>xs. PList (map PInt xs)) x"
  using create_kwarg [OF assms, of fmt] by (cases x) (simp_all add: of_ints_def)

lemma create_kwarg_strs:
  assumes "(k, of_strs x) \<in> set (CreateGroup_arg_dict options)"
  shows "map_of (build_kwargs (CreateGroup_arg_dict options) fmt) k
     = map_option (\<lambda>xs. PList (map PStr xs)) x"
  using create_kwarg [OF assms, of fmt] by (cases x) (simp_all add: of_strs_def)

lemma commands_create:
  assumes "\<not> list options" and "download options = None \<or> download options = Some []"
    and "create options = Some file" and "file \<noteq> []"
  shows "commands options l w =
    (Inr (), call (cli_create file
       (build_kwargs (CreateGroup_arg_dict options) (file_format options))) w)"
  using assms(1,3,4) not_given [OF assms(2)] by (simp add: commands_def given)

text \<open>
  A name that no project has, next to \<open>--create\<close>: \<open>main\<close> returns before the commands and
  nothing is created. And \<open>--format\<close> given with the empty string: the file is created
  without the keyword \<open>project_format\<close>.
\<close>

theorem create_not_reached_counterexample:
  "main no_other_digits []
      (no_options\<lparr>create := Some ''duplicates.csv'', project_id := Some ''duplicates''\<rparr>) world0
     = (Inr (), world0\<lparr>events := [refine_list_projects,
          print (''Error: No project found with name duplicates.'' @ [CHR 0x0A] @ ''Try command --list'')]\<rparr>)
   \<and> main no_other_digits []
      (no_options\<lparr>create := Some ''duplicates.csv'', file_format := Some ''''\<rparr>) world0
     = (Inr (), world0\<lparr>events := [cli_create ''duplicates.csv'' []]\<rparr>)"
  by (simp add: main_def get_project_id_def set_environment_def str_isdigit_def is_ascii_def
      no_options_def Let_def call_def world0_def not_found_message_def commands_def truthy_def
      build_kwargs_def CreateGroup_arg_dict_def of_str_def of_int_opt_def of_ints_def of_strs_def)

text \<open>
  C7, amended. Let the branch of \<open>--create\<close> be the one that runs: no \<open>--list\<close>, no
  \<open>--download\<close>, a file given, and \<open>--project_id\<close> absent, empty, a number or the name of
  exactly one project. Then \<open>cli.create\<close> is called, once, with the file and with keyword
  arguments in which each of the nineteen options of the create group stands under its own
  name with the value given on the command line: a string as \<open>flag_value\<close> says ('true' and
  'false' as booleans), an int as it is, a list as it is; an option that was not given has no
  keyword. A non-empty \<open>--format\<close> stands under \<open>project_format\<close>; an empty or absent one
  has no keyword. There is no other keyword.
\<close>

theorem main_create_kwargs:
  assumes "\<not> list options" and "download options = None \<or> download options = Some []"
    and "create options = Some file" and "file \<noteq> []"
    and "case project_id options of
           None \<Rightarrow> True
         | Some n \<Rightarrow> n = [] \<or> str_isdigit unicode_isdigit n \<or> (\<exists>p. ids_named n projects = [p])"
  shows "\<exists>kwargs.
      fst (main unicode_isdigit projects options w) = Inr ()
    \<and> events (snd (main unicode_isdigit projects options w)) =
        events w @
        (case project_id options of
           None \<Rightarrow> []
         | Some n \<Rightarrow> if n = [] \<or> str_isdigit unicode_isdigit n then [] else [refine_list_projects])
        @ [cli_create file kwargs]
    \<and> distinct (map fst kwargs)
    \<and> dom (map_of kwargs) \<subseteq>
        {''columnWidths'', ''encoding'', ''guessCellValueTypes'', ''headerLines'', ''ignoreLines'',
         ''includeFileSources'', ''limit'', ''linesPerRow'', ''processQuotes'', ''projectName'',
         ''projectTags'', ''recordPath'', ''separator'', ''sheets'', ''skipDataLines'',
         ''storeBlankCellsAsNulls'', ''storeBlankRows'', ''storeEmptyStrings'', ''trimStrings'',
         ''project_format''}
    \<and> map_of kwargs ''columnWidths'' = map_option (\<lambda>xs. PList (map PInt xs)) (columnWidths options)
    \<and> map_of kwargs ''encoding'' = map_option flag_value (encoding options)
    \<and> map_of kwargs ''guessCellValueTypes'' = map_option flag_value (guessCellValueTypes options)
    \<and> map_of kwargs ''headerLines'' = map_option PInt (headerLines options)
    \<and> map_of kwargs ''ignoreLines'' = map_option PInt (ignoreLines options)
    \<and> map_of kwargs ''includeFileSources'' = map_option flag_value (includeFileSources options)
    \<and> map_of kwargs ''limit'' = map_option PInt (limit options)
    \<and> map_of kwargs ''linesPerRow'' = map_option PInt (linesPerRow options)
    \<and> map_of kwargs ''processQuotes'' = map_option flag_value (processQuotes options)
    \<and> map_of kwargs ''projectName'' = map_option flag_value (projectName options)
    \<and> map_of kwargs ''projectTags'' = map_option (\<lambda>xs. PList (map PStr xs)) (projectTags options)
    \<and> map_of kwargs ''recordPath'' = map_option (\<lambda>xs. PList (map PStr xs)) (recordPath options)
    \<and> map_of kwargs ''separator'' = map_option flag_value (separator options)
    \<and> map_of kwargs ''sheets'' = map_option (\<lambda>xs. PList (map PInt xs)) (sheets options)
    \<and> map_of kwargs ''skipDataLines'' = map_option PInt (skipDataLines options)
    \<and> map_of kwargs ''storeBlankCellsAsNulls'' = map_option flag_value (storeBlankCellsAsNulls options)
    \<and> map_of kwargs ''storeBlankRows'' = map_option flag_value (storeBlankRows options)
    \<and> map_of kwargs ''storeEmptyStrings'' = map_option flag_value (storeEmptyStrings options)
    \<and> map_of kwargs ''trimStrings'' = map_option flag_value (trimStrings options)
    \<and> map_of kwargs ''project_format'' =
        (case file_format options of
           None \<Rightarrow> None
         | Some f \<Rightarrow> if f = [] then None else Some (PStr f))"
proof -
  let ?kw = "build_kwargs (CreateGroup_arg_dict options) (file_format options)"
  from get_project_id_continues [OF assms(5), of "set_environment options w"]
  obtain l w' where g: "get_project_id unicode_isdigit projects options (set_environment options w)
        = (Continue l, w')"
    and e: "events w' = events w @
        (case project_id options of
           None \<Rightarrow> []
         | Some n \<Rightarrow> if n = [] \<or> str_isdigit unicode_isdigit n then [] else [refine_list_projects])"
    by (auto simp: events_set_environment)
  have c: "commands options l w' = (Inr (), call (cli_create file ?kw) w')"
    using assms(1-4) by (rule commands_create)
  have r: "fst (main unicode_isdigit projects options w) = Inr ()"
    using g c by (simp add: main_def)
  have ev: "events (snd (main unicode_isdigit projects options w)) =
        events w @
        (case project_id options of
           None \<Rightarrow> []
         | Some n \<Rightarrow> if n = [] \<or> str_isdigit unicode_isdigit n then [] else [refine_list_projects])
        @ [cli_create file ?kw]"
    using g c e by (simp add: main_def events_call)
  have d: "distinct (map fst ?kw)"
    by (rule build_kwargs_distinct [OF distinct_CreateGroup])
  have "fst ` set (CreateGroup_arg_dict options) =
        {''columnWidths'', ''encoding'', ''guessCellValueTypes'', ''headerLines'', ''ignoreLines'',
         ''includeFileSources'', ''limit'', ''linesPerRow'', ''processQuotes'', ''projectName'',
         ''projectTags'', ''recordPath'', ''separator'', ''sheets'', ''skipDataLines'',
         ''storeBlankCellsAsNulls'', ''storeBlankRows'', ''storeEmptyStrings'', ''trimStrings''}"
    by (simp add: CreateGroup_arg_dict_def)
  with build_kwargs_dom [of "CreateGroup_arg_dict options" "file_format options"]
  have dm: "dom (map_of ?kw) \<subseteq>
        {''columnWidths'', ''encoding'', ''guessCellValueTypes'', ''headerLines'', ''ignoreLines'',
         ''includeFileSources'', ''limit'', ''linesPerRow'', ''processQuotes'', ''projectName'',
         ''projectTags'', ''recordPath'', ''separator'', ''sheets'', ''skipDataLines'',
         ''storeBlankCellsAsNulls'', ''storeBlankRows'', ''storeEmptyStrings'', ''trimStrings'',
         ''project_format''}"
    by (simp only: insert_commute)
  have k1: "map_of ?kw ''columnWidths'' = map_option (\<lambda>xs. PList (map PInt xs)) (columnWidths options)"
    by (rule create_kwarg_ints) (simp add: CreateGroup_arg_dict_def)
  have k2: "map_of ?kw ''encoding'' = map_option flag_value (encoding options)"
    by (rule create_kwarg_str) (simp add: CreateGroup_arg_dict_def)
  have k3: "map_of ?kw ''guessCellValueTypes'' = map_option flag_value (guessCellValueTypes options)"
    by (rule create_kwarg_str) (simp add: CreateGroup_arg_dict_def)
  have k4: "map_of ?kw ''headerLines'' = map_option PInt (headerLines options)"
    by (rule create_kwarg_int) (simp add: CreateGroup_arg_dict_def)
  have k5: "map_of ?kw ''ignoreLines'' = map_option PInt (ignoreLines options)"
    by (rule create_kwarg_int) (simp add: CreateGroup_arg_dict_def)
  have k6: "map_of ?kw ''includeFileSources'' = map_option flag_value (includeFileSources options)"
    by (rule create_kwarg_str) (simp add: CreateGroup_arg_dict_def)
  have k7: "map_of ?kw ''limit'' = map_option PInt (limit options)"
    by (rule create_kwarg_int) (simp add: CreateGroup_arg_dict_def)
  have k8: "map_of ?kw ''linesPerRow'' = map_option PInt (linesPerRow options)"
    by (rule create_kwarg_int) (simp add: CreateGroup_arg_dict_def)
  have k9: "map_of ?kw ''processQuotes'' = map_option flag_value (processQuotes options)"
    by (rule create_kwarg_str) (simp add: CreateGroup_arg_dict_def)
  have k10: "map_of ?kw ''projectName'' = map_option flag_value (projectName options)"
    by (rule create_kwarg_str) (simp add: CreateGroup_arg_dict_def)
  have k11: "map_of ?kw ''projectTags'' = map_option (\<lambda>xs. PList (map PStr xs)) (projectTags options)"
    by (rule create_kwarg_strs) (simp add: CreateGroup_arg_dict_def)
  have k12: "map_of ?kw ''recordPath'' = map_option (\<lambda>xs. PList (map PStr xs)) (recordPath options)"
    by (rule create_kwarg_strs) (simp add: CreateGroup_arg_dict_def)
  have k13: "map_of ?kw ''separator'' = map_option flag_value (separator options)"
    by (rule create_kwarg_str) (simp add: CreateGroup_arg_dict_def)
  have k14: "map_of ?kw ''sheets'' = map_option (\<lambda>xs. PList (map PInt xs)) (sheets options)"
    by (rule create_kwarg_ints) (simp add: CreateGroup_arg_dict_def)
  have k15: "map_of ?kw ''skipDataLines'' = map_option PInt (skipDataLines options)"
    by (rule create_kwarg_int) (simp add: CreateGroup_arg_dict_def)
  have k16: "map_of ?kw ''storeBlankCellsAsNulls'' = map_option flag_value (storeBlankCellsAsNulls options)"
    by (rule create_kwarg_str) (simp add: CreateGroup_arg_dict_def)
  have k17: "map_of ?kw ''storeBlankRows'' = map_option flag_value (storeBlankRows options)"
    by (rule create_kwarg_str) (simp add: CreateGroup_arg_dict_def)
  have k18: "map_of ?kw ''storeEmptyStrings'' = map_option flag_value (storeEmptyStrings options)"
    by (rule create_kwarg_str) (simp add: CreateGroup_arg_dict_def)
  have k19: "map_of ?kw ''trimStrings'' = map_option flag_value (trimStrings options)"
    by (rule create_kwarg_str) (simp add: CreateGroup_arg_dict_def)
  have f: "map_of ?kw ''project_format'' =
        (case file_format options of
           None \<Rightarrow> None
         | Some f \<Rightarrow> if f = [] then None else Some (PStr f))"
    by (rule build_kwargs_format [OF project_format_not_CreateGroup])
  show ?thesis
    by (intro exI [of _ ?kw] conjI r ev d dm k1 k2 k3 k4 k5 k6 k7 k8 k9 k10 k11 k12 k13 k14 k15
        k16 k17 k18 k19 f)
qed

theorem main_create_kwargs_witness:
  "events (snd (main no_other_digits []
        (no_options\<lparr>create := Some ''duplicates.csv'', file_format := Some ''csv'',
           encoding := Some ''UTF-8'', guessCellValueTypes := Some ''true'',
           headerLines := Some 1, processQuotes := Some ''false'',
           projectTags := Some [''beta'', ''client1'']\<rparr>) world0))
     = [cli_create ''duplicates.csv''
          [(''encoding'', PStr ''UTF-8''), (''headerLines'', PInt 1),
           (''projectTags'', PList [PStr ''beta'', PStr ''client1'']),
           (''guessCellValueTypes'', PBool True), (''processQuotes'', PBool False),
           (''project_format'', PStr ''csv'')]]
   \<and> (\<exists>kwargs. events (snd (main no_other_digits []
        (no_options\<lparr>create := Some ''duplicates.csv'', file_format := Some ''csv'',
           encoding := Some ''UTF-8'', guessCellValueTypes := Some ''true'',
           headerLines := Some 1, processQuotes := Some ''false'',
           projectTags := Some [''beta'', ''client1'']\<rparr>) world0)) = [cli_create ''duplicates.csv'' kwargs]
      \<and> map_of kwargs ''encoding'' = Some (PStr ''UTF-8'')
      \<and> map_of kwargs ''guessCellValueTypes'' = Some (PBool True)
      \<and> map_of kwargs ''processQuotes'' = Some (PBool False)
      \<and> map_of kwargs ''headerLines'' = Some (PInt 1)
      \<and> map_of kwargs ''projectTags'' = Some (PList [PStr ''beta'', PStr ''client1''])
      \<and> map_of kwargs ''limit'' = None
      \<and> map_of kwargs ''project_format'' = Some (PStr ''csv''))"
proof -
  let ?o = "no_options\<lparr>create := Some ''duplicates.csv'', file_format := Some ''csv'',
           encoding := Some ''UTF-8'', guessCellValueTypes := Some ''true'',
           headerLines := Some 1, processQuotes := Some ''false'',
           projectTags := Some [''beta'', ''client1'']\<rparr>"
  have h: "\<not> list ?o" "download ?o = None \<or> download ?o = Some []"
    "create ?o = Some ''duplicates.csv''" "''duplicates.csv'' \<noteq> []"
    "case project_id ?o of
       None \<Rightarrow> True
     | Some n \<Rightarrow> n = [] \<or> str_isdigit no_other_digits n \<or> (\<exists>p. ids_named n [] = [p])"
    by (simp_all add: no_options_def)
  have v: "project_id ?o = None" "encoding ?o = Some ''UTF-8''"
    "guessCellValueTypes ?o = Some ''true''" "processQuotes ?o = Some ''false''"
    "headerLines ?o = Some 1" "projectTags ?o = Some [''beta'', ''client1'']"
    "limit ?o = None" "file_format ?o = Some ''csv''"
    by (simp_all add: no_options_def)
  have e: "events (snd (main no_other_digits [] ?o world0)) =
      [cli_create ''duplicates.csv''
          [(''encoding'', PStr ''UTF-8''), (''headerLines'', PInt 1),
           (''projectTags'', PList [PStr ''beta'', PStr ''client1'']),
           (''guessCellValueTypes'', PBool True), (''processQuotes'', PBool False),
           (''project_format'', PStr ''csv'')]]"
    by (simp add: main_def get_project_id_def set_environment_def commands_def truthy_def
        no_options_def Let_def call_def world0_def build_kwargs_def CreateGroup_arg_dict_def
        of_str_def of_int_opt_def of_ints_def of_strs_def)
  from main_create_kwargs [OF h, of world0]
  obtain kwargs where k: "events (snd (main no_other_digits [] ?o world0)) =
        events world0 @
        (case project_id ?o of
           None \<Rightarrow> []
         | Some n \<Rightarrow> if n = [] \<or> str_isdigit no_other_digits n then [] else [refine_list_projects])
        @ [cli_create ''duplicates.csv'' kwargs]"
    "map_of kwargs ''encoding'' = map_option flag_value (encoding ?o)"
    "map_of kwargs ''guessCellValueTypes'' = map_option flag_value (guessCellValueTypes ?o)"
    "map_of kwargs ''processQuotes'' = map_option flag_value (processQuotes ?o)"
    "map_of kwargs ''headerLines'' = map_option PInt (headerLines ?o)"
    "map_of kwargs ''projectTags'' = map_option (\<lambda>xs. PList (map PStr xs)) (projectTags ?o)"
    "map_of kwargs ''limit'' = map_option PInt (limit ?o)"
    "map_of kwargs ''project_format'' =
        (case file_format ?o of
           None \<Rightarrow> None
         | Some f \<Rightarrow> if f = [] then None else Some (PStr f))"
    by blast
  from k have "events (snd (main no_other_digits [] ?o world0)) = [cli_create ''duplicates.csv'' kwargs]
      \<and> map_of kwargs ''encoding'' = Some (PStr ''UTF-8'')
      \<and> map_of kwargs ''guessCellValueTypes'' = Some (PBool True)
      \<and> map_of kwargs ''processQuotes'' = Some (PBool False)
      \<and> map_of kwargs ''headerLines'' = Some (PInt 1)
      \<and> map_of kwargs ''projectTags'' = Some (PList [PStr ''beta'', PStr ''client1''])
      \<and> map_of kwargs ''limit'' = None
      \<and> map_of kwargs ''project_format'' = Some (PStr ''csv'')"
    by (simp add: v world0_def flag_value_def)
  then have "\<exists>kwargs. events (snd (main no_other_digits [] ?o world0)) = [cli_create ''duplicates.csv'' kwargs]
      \<and> map_of kwargs ''encoding'' = Some (PStr ''UTF-8'')
      \<and> map_of kwargs ''guessCellValueTypes'' = Some (PBool True)
      \<and> map_of kwargs ''processQuotes'' = Some (PBool False)
      \<and> map_of kwargs ''headerLines'' = Some (PInt 1)
      \<and> map_of kwargs ''projectTags'' = Some (PList [PStr ''beta'', PStr ''client1''])
      \<and> map_of kwargs ''limit'' = None
      \<and> map_of kwargs ''project_format'' = Some (PStr ''csv'')"
    by blast
  with e show ?thesis by (rule conjI)
qed

section \<open>The branch of --template\<close>

text \<open>
  Once the branch of \<open>--template\<close> is the one that runs, the world is left as it was.
\<close>

lemma commands_template:
  assumes "\<not> list options" and "\<not> truthy (download options)" and "\<not> truthy (create options)"
    and "\<not> info options" and "\<not> delete options" and "\<not> truthy (apply options)"
    and "truthy (template options)"
  shows "commands options project_id' w = (Inr (), w)"
  using assms by (simp add: commands_def Let_def)

text \<open>
  C1. The usage says of \<open>--template\<close>: export project with templating. In \<open>main\<close> the branch
  builds the keyword arguments of the templating options and ends; nothing is done with them.
  For \<open>--project_id 1234567890123 --template '{{cells.name.value}}' --prefix '[' --suffix ']'
  --mode row-based\<close> the run ends without one event: no verb of \<open>cli\<close> was called.
\<close>

theorem main_template_calls_nothing:
  "main unicode_isdigit [] (no_options\<lparr>project_id := Some ''1234567890123'',
        template := Some ''{{cells.name.value}}'', prefix := Some ''['', suffix := Some '']'',
        mode := Some ''row-based''\<rparr>) world0
     = (Inr (), world0)"
  by (simp add: main_def get_project_id_def set_environment_def commands_def truthy_def
      str_isdigit_def is_ascii_def no_options_def Let_def)

section \<open>--output without --export, and no command at all\<close>

text \<open>
  A name that no project has: \<open>main\<close> asks the server, prints that nothing was found and
  returns. With \<open>--output\<close> given nothing is exported; with no command at all no help text
  is printed, and the server was asked.
\<close>

theorem output_without_project_counterexample:
  "main no_other_digits []
      (no_options\<lparr>output := Some ''deduped.xls'', project_id := Some ''duplicates''\<rparr>) world0
     = (Inr (), world0\<lparr>events := [refine_list_projects,
          print (''Error: No project found with name duplicates.'' @ [CHR 0x0A] @ ''Try command --list'')]\<rparr>)
   \<and> main no_other_digits [] (no_options\<lparr>project_id := Some ''duplicates''\<rparr>) world0
     = (Inr (), world0\<lparr>events := [refine_list_projects,
          print (''Error: No project found with name duplicates.'' @ [CHR 0x0A] @ ''Try command --list'')]\<rparr>)"
  by (simp add: main_def get_project_id_def set_environment_def str_isdigit_def is_ascii_def
      no_options_def Let_def call_def world0_def not_found_message_def)

text \<open>
  C10, amended. Let none of \<open>--list\<close>, \<open>--download\<close>, \<open>--create\<close>, \<open>--info\<close>, \<open>--delete\<close>,
  \<open>--apply\<close>, \<open>--template\<close> be selected. If a non-empty \<open>--output\<close> is given and
  \<open>--project_id\<close> is a number (as \<open>str.isdigit\<close> decides), or a name that exactly one project
  of the server has, then \<open>cli.export\<close> is called on that project with the output file and
  the format, whether \<open>--export\<close> was given or not; the only other event is the request for
  the projects when a name had to be looked up. If neither \<open>--export\<close> nor \<open>--output\<close> is
  given and \<open>--project_id\<close> is absent, empty or a number, the help text is printed and that
  is the only event.
\<close>

theorem main_output_exports_or_help:
  assumes "\<not> list options" and "download options = None \<or> download options = Some []"
    and "create options = None \<or> create options = Some []"
    and "\<not> info options" and "\<not> delete options"
    and "apply options = None \<or> apply options = Some []"
    and "template options = None \<or> template options = Some []"
  shows "(output options = Some out \<and> out \<noteq> [] \<and> project_id options = Some n \<and> n \<noteq> []
          \<and> (if str_isdigit unicode_isdigit n then p = n else ids_named n projects = [p])
        \<longrightarrow> fst (main unicode_isdigit projects options w) = Inr ()
          \<and> events (snd (main unicode_isdigit projects options w)) =
              events w @ (if str_isdigit unicode_isdigit n then [] else [refine_list_projects])
                @ [cli_export p (Some out) (file_format options)])
    \<and> (\<not> export options \<and> (output options = None \<or> output options = Some [])
          \<and> (case project_id options of
                None \<Rightarrow> True
              | Some m \<Rightarrow> m = [] \<or> str_isdigit unicode_isdigit m)
        \<longrightarrow> fst (main unicode_isdigit projects options w) = Inr ()
          \<and> events (snd (main unicode_isdigit projects options w)) = events w @ [parser_print_help])"
proof (intro conjI impI)
  assume a: "output options = Some out \<and> out \<noteq> [] \<and> project_id options = Some n \<and> n \<noteq> []
          \<and> (if str_isdigit unicode_isdigit n then p = n else ids_named n projects = [p])"
  let ?w = "set_environment options w"
  have g: "get_project_id unicode_isdigit projects options ?w =
      (Continue (Some p), if str_isdigit unicode_isdigit n then ?w else call refine_list_projects ?w)"
  proof (cases "str_isdigit unicode_isdigit n")
    case True
    with a get_project_id_digits [of options n unicode_isdigit projects ?w] show ?thesis by simp
  next
    case False
    with a get_project_id_unique [of options n unicode_isdigit projects p ?w] show ?thesis by simp
  qed
  have c: "commands options (Some p) w' =
      (Inr (), call (cli_export p (Some out) (file_format options)) w')" for w'
    using assms(1,4,5) not_given [OF assms(2)] not_given [OF assms(3)] not_given [OF assms(6)]
      not_given [OF assms(7)] a
    by (simp add: commands_def given)
  from g c show "fst (main unicode_isdigit projects options w) = Inr ()"
    by (simp add: main_def)
  from g c show "events (snd (main unicode_isdigit projects options w)) =
      events w @ (if str_isdigit unicode_isdigit n then [] else [refine_list_projects])
        @ [cli_export p (Some out) (file_format options)]"
    by (simp add: main_def events_call events_set_environment)
next
  assume b: "\<not> export options \<and> (output options = None \<or> output options = Some [])
          \<and> (case project_id options of
                None \<Rightarrow> True
              | Some m \<Rightarrow> m = [] \<or> str_isdigit unicode_isdigit m)"
  let ?w = "set_environment options w"
  have "\<exists>l. get_project_id unicode_isdigit projects options ?w = (Continue l, ?w)"
  proof (cases "project_id options = None \<or> project_id options = Some []")
    case True
    then show ?thesis by (simp add: get_project_id_absent)
  next
    case False
    then obtain m where "project_id options = Some m" "m \<noteq> []"
      by auto
    with b get_project_id_digits [of options m unicode_isdigit projects ?w] show ?thesis by simp
  qed
  then obtain l where g: "get_project_id unicode_isdigit projects options ?w = (Continue l, ?w)" ..
  from b have "output options = None \<or> output options = Some []" by simp
  note no = not_given [OF this]
  have c: "commands options l ?w = (Inr (), call parser_print_help ?w)"
    using assms(1,4,5) not_given [OF assms(2)] not_given [OF assms(3)] not_given [OF assms(6)]
      not_given [OF assms(7)] no b
    by (simp add: commands_def)
  from g c show "fst (main unicode_isdigit projects options w) = Inr ()"
    by (simp add: main_def)
  from g c show "events (snd (main unicode_isdigit projects options w)) = events w @ [parser_print_help]"
    by (simp add: main_def events_call events_set_environment)
qed

theorem main_output_exports_or_help_witness:
  "events (snd (main no_other_digits [(''1234567890123'', \<lparr>name = ''duplicates''\<rparr>)]
       (no_options\<lparr>output := Some ''deduped.xls'', project_id := Some ''duplicates''\<rparr>) world0))
     = [refine_list_projects, cli_export ''1234567890123'' (Some ''deduped.xls'') None]
   \<and> events (snd (main no_other_digits [(''1234567890123'', \<lparr>name = ''duplicates''\<rparr>)]
       (no_options\<lparr>output := Some ''deduped.xls'', project_id := Some ''1234567890123''\<rparr>) world0))
     = [cli_export ''1234567890123'' (Some ''deduped.xls'') None]
   \<and> events (snd (main no_other_digits [] no_options world0)) = [parser_print_help]"
proof -
  let ?ps = "[(''1234567890123'', \<lparr>name = ''duplicates''\<rparr>)]"
  let ?o = "no_options\<lparr>output := Some ''deduped.xls'', project_id := Some ''duplicates''\<rparr>"
  let ?o' = "no_options\<lparr>output := Some ''deduped.xls'', project_id := Some ''1234567890123''\<rparr>"
  have h: "\<not> list ?o" "download ?o = None \<or> download ?o = Some []"
    "create ?o = None \<or> create ?o = Some []" "\<not> info ?o" "\<not> delete ?o"
    "apply ?o = None \<or> apply ?o = Some []" "template ?o = None \<or> template ?o = Some []"
    by (simp_all add: no_options_def)
  have h': "\<not> list ?o'" "download ?o' = None \<or> download ?o' = Some []"
    "create ?o' = None \<or> create ?o' = Some []" "\<not> info ?o'" "\<not> delete ?o'"
    "apply ?o' = None \<or> apply ?o' = Some []" "template ?o' = None \<or> template ?o' = Some []"
    by (simp_all add: no_options_def)
  have h0: "\<not> list no_options" "download no_options = None \<or> download no_options = Some []"
    "create no_options = None \<or> create no_options = Some []" "\<not> info no_options"
    "\<not> delete no_options" "apply no_options = None \<or> apply no_options = Some []"
    "template no_options = None \<or> template no_options = Some []"
    by (simp_all add: no_options_def)
  have nd: "\<not> str_isdigit no_other_digits ''duplicates''"
    and dg: "str_isdigit no_other_digits ''1234567890123''"
    by (simp_all add: str_isdigit_def is_ascii_def)
  have a: "output ?o = Some ''deduped.xls'' \<and> ''deduped.xls'' \<noteq> []
      \<and> project_id ?o = Some ''duplicates'' \<and> ''duplicates'' \<noteq> []
      \<and> (if str_isdigit no_other_digits ''duplicates'' then ''1234567890123'' = ''duplicates''
         else ids_named ''duplicates'' ?ps = [''1234567890123''])"
    by (simp add: no_options_def nd ids_named_def)
  have a': "output ?o' = Some ''deduped.xls'' \<and> ''deduped.xls'' \<noteq> []
      \<and> project_id ?o' = Some ''1234567890123'' \<and> ''1234567890123'' \<noteq> []
      \<and> (if str_isdigit no_other_digits ''1234567890123'' then ''1234567890123'' = ''1234567890123''
         else ids_named ''1234567890123'' ?ps = [''1234567890123''])"
    by (simp add: no_options_def dg)
  have b: "\<not> export no_options \<and> (output no_options = None \<or> output no_options = Some [])
      \<and> (case project_id no_options of
            None \<Rightarrow> True
          | Some m \<Rightarrow> m = [] \<or> str_isdigit no_other_digits m)"
    by (simp add: no_options_def)
  have f: "file_format ?o = None" "file_format ?o' = None"
    by (simp_all add: no_options_def)
  from main_output_exports_or_help [OF h, of "''deduped.xls''" "''duplicates''" no_other_digits
      "''1234567890123''" ?ps world0] a
  have "events (snd (main no_other_digits ?ps ?o world0)) =
      events world0 @ (if str_isdigit no_other_digits ''duplicates'' then [] else [refine_list_projects])
        @ [cli_export ''1234567890123'' (Some ''deduped.xls'') (file_format ?o)]"
    by blast
  moreover
  from main_output_exports_or_help [OF h', of "''deduped.xls''" "''1234567890123''" no_other_digits
      "''1234567890123''" ?ps world0] a'
  have "events (snd (main no_other_digits ?ps ?o' world0)) =
      events world0 @ (if str_isdigit no_other_digits ''1234567890123'' then [] else [refine_list_projects])
        @ [cli_export ''1234567890123'' (Some ''deduped.xls'') (file_format ?o')]"
    by blast
  moreover
  from main_output_exports_or_help [OF h0, of "[]" "[]" no_other_digits "[]" "[]" world0] b
  have "events (snd (main no_other_digits [] no_options world0)) = events world0 @ [parser_print_help]"
    by blast
  ultimately show ?thesis
    by (simp add: nd dg f world0_def)
qed

end
